theory Spec2Isabelle
  imports Complex_Main "HOL-Library.Multiset"
begin

section \<open>The expense tracker of app/page.tsx\<close>

text \<open>
  The page keeps a list of expense records in React state, mirrors it to
  \<^verbatim>\<open>localStorage\<close> and derives the month list, the month total, the weekly pace
  and the top categories from it. The embedding follows the source function by function.
  Event handlers and effects become functions from the state to the state.
\<close>

subsection \<open>JavaScript numbers\<close>

text \<open>
  A \<^verbatim>\<open>number\<close> is \<^verbatim>\<open>NaN\<close>, an infinity or a finite value. Finite values are
  rationals and arithmetic on them is exact: the rounding of IEEE doubles and the sign of
  zero are not modelled.
\<close>

datatype number = NaN | NegInf | Fin rat | PosInf

fun num_neg :: "number \<Rightarrow> number" where
  "num_neg NaN = NaN"
| "num_neg NegInf = PosInf"
| "num_neg (Fin a) = Fin (- a)"
| "num_neg PosInf = NegInf"

fun num_add :: "number \<Rightarrow> number \<Rightarrow> number" where
  "num_add NaN b = NaN"
| "num_add a NaN = NaN"
| "num_add (Fin a) (Fin b) = Fin (a + b)"
| "num_add PosInf NegInf = NaN"
| "num_add NegInf PosInf = NaN"
| "num_add PosInf b = PosInf"
| "num_add NegInf b = NegInf"
| "num_add (Fin a) b = b"

definition num_sub :: "number \<Rightarrow> number \<Rightarrow> number" where
  "num_sub a b = num_add a (num_neg b)"

text \<open>\<^verbatim>\<open>a > b\<close>; every comparison with \<^verbatim>\<open>NaN\<close> is false.\<close>

fun num_gt :: "number \<Rightarrow> number \<Rightarrow> bool" where
  "num_gt NaN b = False"
| "num_gt a NaN = False"
| "num_gt (Fin a) (Fin b) = (b < a)"
| "num_gt PosInf b = (b \<noteq> PosInf)"
| "num_gt a NegInf = (a \<noteq> NegInf)"
| "num_gt a b = False"

text \<open>\<^verbatim>\<open>a >= b\<close>.\<close>

fun num_ge :: "number \<Rightarrow> number \<Rightarrow> bool" where
  "num_ge NaN b = False"
| "num_ge a NaN = False"
| "num_ge a b = (a = b \<or> num_gt a b)"

text \<open>\<^verbatim>\<open>a / b\<close>. A zero divisor counts as \<^verbatim>\<open>+0\<close>.\<close>

fun num_div :: "number \<Rightarrow> number \<Rightarrow> number" where
  "num_div NaN b = NaN"
| "num_div a NaN = NaN"
| "num_div (Fin a) (Fin b) =
     (if b \<noteq> 0 then Fin (a / b)
      else if a = 0 then NaN else if 0 < a then PosInf else NegInf)"
| "num_div (Fin a) b = Fin 0"
| "num_div a (Fin b) = (if (a = PosInf) = (0 \<le> b) then PosInf else NegInf)"
| "num_div a b = NaN"

text \<open>The truth value of a number in a condition: \<^verbatim>\<open>0\<close> and \<^verbatim>\<open>NaN\<close> are falsy.\<close>

definition truthy :: "number \<Rightarrow> bool" where
  "truthy a = (a \<noteq> NaN \<and> a \<noteq> Fin 0)"

definition Number_isNaN :: "number \<Rightarrow> bool" where
  "Number_isNaN a = (a = NaN)"

text \<open>
  \<^verbatim>\<open>Number(x.toFixed(2))\<close>. For a finite \<open>x\<close>, \<^verbatim>\<open>toFixed(2)\<close> prints \<open>n / 100\<close> for
  the integer \<open>n\<close> nearest to \<open>100 * |x|\<close>, the larger one of two equally near, with the
  sign of \<open>x\<close> in front, and \<^verbatim>\<open>Number\<close> reads that decimal back. (From \<open>10^21\<close> on
  \<^verbatim>\<open>toFixed\<close> prints the number itself; a double of that size is an integer, which the
  formula leaves as it is.) \<^verbatim>\<open>NaN\<close> and the infinities print as their names, which
  \<^verbatim>\<open>Number\<close> reads back.
\<close>

definition round2 :: "rat \<Rightarrow> rat" where
  "round2 x =
     (if 0 \<le> x then of_int \<lfloor>x * 100 + 1 / 2\<rfloor> / 100
      else - (of_int \<lfloor>- x * 100 + 1 / 2\<rfloor> / 100))"

fun toFixed2 :: "number \<Rightarrow> number" where
  "toFixed2 (Fin x) = Fin (round2 x)"
| "toFixed2 a = a"

subsection \<open>Strings\<close>

text \<open>
  Strings are lists of characters. White space is the ASCII white space of ECMAScript
  (tab, line feed, vertical tab, form feed, carriage return, space); the white space
  beyond ASCII is not modelled.
\<close>

definition is_ws :: "char \<Rightarrow> bool" where
  "is_ws c = (c \<in> set [CHR 0x09, CHR 0x0A, CHR 0x0B, CHR 0x0C, CHR 0x0D, CHR 0x20])"

text \<open>\<^verbatim>\<open>s.trim()\<close>\<close>

definition trim :: "string \<Rightarrow> string" where
  "trim s = rev (dropWhile is_ws (rev (dropWhile is_ws s)))"

definition is_digit :: "char \<Rightarrow> bool" where
  "is_digit c = (c \<in> set ''0123456789'')"

definition digit_val :: "char \<Rightarrow> nat" where
  "digit_val c = of_char c - 48"

definition nat_of_digits :: "string \<Rightarrow> nat" where
  "nat_of_digits ds = foldl (\<lambda>n c. 10 * n + digit_val c) 0 ds"

definition digit_char :: "nat \<Rightarrow> char" where
  "digit_char n = char_of (48 + n)"

fun digits_of_nat :: "nat \<Rightarrow> string" where
  "digits_of_nat n =
     (if n < 10 then [digit_char n] else digits_of_nat (n div 10) @ [digit_char (n mod 10)])"

text \<open>The decimal text of an integer, as a template literal prints it.\<close>

definition string_of_int :: "int \<Rightarrow> string" where
  "string_of_int i =
     (if i < 0 then CHR ''-'' # digits_of_nat (nat (- i)) else digits_of_nat (nat i))"

text \<open>
  \<^verbatim>\<open>s.split(c)\<close> for a separator of one character: the pieces between the separators,
  empty pieces included.
\<close>

fun split :: "char \<Rightarrow> string \<Rightarrow> string list" where
  "split c [] = [[]]"
| "split c (x # xs) =
     (if x = c then [] # split c xs
      else case split c xs of [] \<Rightarrow> [[x]] | piece # pieces \<Rightarrow> (x # piece) # pieces)"

subsection \<open>\<^verbatim>\<open>Number(string)\<close>\<close>

text \<open>
  The grammar of ECMAScript's StringToNumber: white space around, then nothing (zero), a
  signed decimal literal with an optional fraction and exponent, a signed
  \<^verbatim>\<open>Infinity\<close>, or an unsigned hexadecimal, octal or binary integer. Everything else is
  \<^verbatim>\<open>NaN\<close>. The value is exact (a literal beyond the range of a double is not turned
  into an infinity).
\<close>

definition hex_val :: "char \<Rightarrow> nat option" where
  "hex_val c =
     (if is_digit c then Some (digit_val c)
      else if c \<in> set ''abcdef'' then Some (of_char c - 87)
      else if c \<in> set ''ABCDEF'' then Some (of_char c - 55)
      else None)"

text \<open>The digits \<open>ds\<close> read in base \<open>b\<close>; \<open>None\<close> when there is none or one is not of the base.\<close>

definition radix_literal :: "nat \<Rightarrow> string \<Rightarrow> rat option" where
  "radix_literal b ds =
     (if ds \<noteq> [] \<and> (\<forall>c \<in> set ds. case hex_val c of None \<Rightarrow> False | Some v \<Rightarrow> v < b)
      then Some (of_nat (foldl (\<lambda>n c. b * n + the (hex_val c)) 0 ds))
      else None)"

text \<open>The exponent part \<^verbatim>\<open>e\<close>, an optional sign, digits; the empty text is exponent 0.\<close>

definition exponent_part :: "string \<Rightarrow> int option" where
  "exponent_part s =
     (if s = [] then Some 0
      else if hd s \<in> set ''eE'' then
        (let t = tl s;
             neg = (t \<noteq> [] \<and> hd t = CHR ''-'');
             ds = (if t \<noteq> [] \<and> hd t \<in> set ''+-'' then tl t else t)
         in if ds \<noteq> [] \<and> (\<forall>c \<in> set ds. is_digit c)
            then Some (if neg then - int (nat_of_digits ds) else int (nat_of_digits ds))
            else None)
      else None)"

definition pow10 :: "int \<Rightarrow> rat" where
  "pow10 e = (if 0 \<le> e then 10 ^ nat e else 1 / 10 ^ nat (- e))"

text \<open>An unsigned decimal literal: digits, an optional point with digits, an exponent.\<close>

definition unsigned_decimal :: "string \<Rightarrow> rat option" where
  "unsigned_decimal s =
     (let ip = takeWhile is_digit s;
          r = dropWhile is_digit s;
          dot = (r \<noteq> [] \<and> hd r = CHR ''.'');
          fp = (if dot then takeWhile is_digit (tl r) else []);
          rest = (if dot then dropWhile is_digit (tl r) else r)
      in if ip = [] \<and> fp = [] then None
         else case exponent_part rest of
                None \<Rightarrow> None
              | Some e \<Rightarrow>
                  Some ((of_nat (nat_of_digits ip) + of_nat (nat_of_digits fp) / 10 ^ length fp)
                        * pow10 e))"

definition Number :: "string \<Rightarrow> number" where
  "Number str =
     (let s = trim str in
      if s = [] then Fin 0
      else if take 2 s \<in> {''0x'', ''0X''} then
        (case radix_literal 16 (drop 2 s) of None \<Rightarrow> NaN | Some v \<Rightarrow> Fin v)
      else if take 2 s \<in> {''0o'', ''0O''} then
        (case radix_literal 8 (drop 2 s) of None \<Rightarrow> NaN | Some v \<Rightarrow> Fin v)
      else if take 2 s \<in> {''0b'', ''0B''} then
        (case radix_literal 2 (drop 2 s) of None \<Rightarrow> NaN | Some v \<Rightarrow> Fin v)
      else
        (let neg = (hd s = CHR ''-'');
             u = (if hd s \<in> set ''+-'' then tl s else s)
         in if u = ''Infinity'' then (if neg then NegInf else PosInf)
            else case unsigned_decimal u of
                   None \<Rightarrow> NaN
                 | Some v \<Rightarrow> Fin (if neg then - v else v)))"

subsection \<open>Dates\<close>

text \<open>
  The calendar of ECMAScript's Date objects. A time value is a number of milliseconds since
  1 January 1970 UTC; days are counted from the same day. Division on \<open>int\<close> rounds down,
  as the standard's \<open>floor\<close> does.
\<close>

definition msPerDay :: int where
  "msPerDay = 86400000"

definition Day :: "int \<Rightarrow> int" where
  "Day t = t div msPerDay"

definition InLeapYear :: "int \<Rightarrow> bool" where
  "InLeapYear y = (y mod 4 = 0 \<and> (y mod 100 \<noteq> 0 \<or> y mod 400 = 0))"

definition DaysInYear :: "int \<Rightarrow> int" where
  "DaysInYear y = (if InLeapYear y then 366 else 365)"

definition DayFromYear :: "int \<Rightarrow> int" where
  "DayFromYear y =
     365 * (y - 1970) + (y - 1969) div 4 - (y - 1901) div 100 + (y - 1601) div 400"

text \<open>
  The year of a day: the largest \<open>y\<close> with \<open>DayFromYear y \<le> d\<close>. It is computed from the
  mean length of a year (146097 days in 400 years), which is off by at most one.
\<close>

definition YearFromDay :: "int \<Rightarrow> int" where
  "YearFromDay d =
     (let y = 1970 + (d * 400) div 146097
      in if d < DayFromYear y then y - 1 else if DayFromYear (y + 1) \<le> d then y + 1 else y)"

text \<open>The day of the year on which month \<open>m\<close> (0 to 11) starts.\<close>

definition MonthStart :: "bool \<Rightarrow> int \<Rightarrow> int" where
  "MonthStart leap m =
     (let l = (if leap then 1 else 0)
      in if m \<le> 0 then 0 else if m = 1 then 31 else if m = 2 then 59 + l
         else if m = 3 then 90 + l else if m = 4 then 120 + l else if m = 5 then 151 + l
         else if m = 6 then 181 + l else if m = 7 then 212 + l else if m = 8 then 243 + l
         else if m = 9 then 273 + l else if m = 10 then 304 + l else 334 + l)"

definition DayWithinYear :: "int \<Rightarrow> int" where
  "DayWithinYear d = d - DayFromYear (YearFromDay d)"

definition MonthFromDay :: "int \<Rightarrow> int" where
  "MonthFromDay d =
     (let leap = InLeapYear (YearFromDay d); k = DayWithinYear d
      in if k < MonthStart leap 1 then 0 else if k < MonthStart leap 2 then 1
         else if k < MonthStart leap 3 then 2 else if k < MonthStart leap 4 then 3
         else if k < MonthStart leap 5 then 4 else if k < MonthStart leap 6 then 5
         else if k < MonthStart leap 7 then 6 else if k < MonthStart leap 8 then 7
         else if k < MonthStart leap 9 then 8 else if k < MonthStart leap 10 then 9
         else if k < MonthStart leap 11 then 10 else 11)"

definition DateFromDay :: "int \<Rightarrow> int" where
  "DateFromDay d =
     DayWithinYear d - MonthStart (InLeapYear (YearFromDay d)) (MonthFromDay d) + 1"

text \<open>
  \<^verbatim>\<open>MakeDay(year, month, date)\<close>: the day number of the given date of the given month
  (0 to 11; months outside carry into the year, dates outside into the neighbouring months).
\<close>

definition MakeDay :: "int \<Rightarrow> int \<Rightarrow> int \<Rightarrow> int" where
  "MakeDay year month dt =
     (let ym = year + month div 12; mn = month mod 12
      in DayFromYear ym + MonthStart (InLeapYear ym) mn + dt - 1)"

text \<open>
  A Date object is its time value, \<open>None\<close> for an invalid date (the time value
  \<^verbatim>\<open>NaN\<close>). \<^verbatim>\<open>TimeClip\<close> keeps the time values of at most \<open>8.64 * 10^15\<close>.
\<close>

type_synonym jsdate = "int option"

definition TimeClip :: "int \<Rightarrow> jsdate" where
  "TimeClip t = (if \<bar>t\<bar> \<le> 8640000000000000 then Some t else None)"

text \<open>
  The time zone is the parameter \<open>tz\<close>: the minutes that \<^verbatim>\<open>getTimezoneOffset()\<close> returns
  (UTC minus local time), taken as the same for every date (no daylight saving time).
\<close>

definition LocalTime :: "int \<Rightarrow> int \<Rightarrow> int" where
  "LocalTime tz t = t - tz * 60000"

definition UTC :: "int \<Rightarrow> int \<Rightarrow> int" where
  "UTC tz t = t + tz * 60000"

text \<open>Rounding towards zero (\<^verbatim>\<open>ToIntegerOrInfinity\<close> of a finite number).\<close>

definition ToInteger :: "rat \<Rightarrow> int" where
  "ToInteger x = (if 0 \<le> x then \<lfloor>x\<rfloor> else - \<lfloor>- x\<rfloor>)"

text \<open>
  \<^verbatim>\<open>new Date(year, monthIndex, date)\<close>, local midnight of that day. A year from 0 to 99
  stands for 1900 to 1999. An argument that is not finite gives an invalid date.
\<close>

fun Date_fields :: "int \<Rightarrow> number \<Rightarrow> number \<Rightarrow> number \<Rightarrow> jsdate" where
  "Date_fields tz (Fin y) (Fin m) (Fin dt) =
     (let yi = ToInteger y;
          yr = (if 0 \<le> yi \<and> yi \<le> 99 then 1900 + yi else yi)
      in TimeClip (UTC tz (MakeDay yr (ToInteger m) (ToInteger dt) * msPerDay)))"
| "Date_fields tz y m dt = None"

text \<open>
  \<^verbatim>\<open>new Date(string)\<close> for the strings this program stores as dates: the value of an
  \<^verbatim>\<open><input type="date">\<close> and the result of \<^verbatim>\<open>toLocalDateInput\<close>, of the form
  \<^verbatim>\<open>YYYY-MM-DD\<close>. Such a string is midnight UTC of that day. The date-time and the
  shortened forms of the standard are not modelled, and a string of another shape, or with
  a month or day out of range, is an invalid date here.
\<close>

definition DaysInMonth :: "int \<Rightarrow> int \<Rightarrow> int" where
  "DaysInMonth y m =
     (if m = 2 then (if InLeapYear y then 29 else 28)
      else if m \<in> {4, 6, 9, 11} then 30 else 31)"

definition Date_string :: "string \<Rightarrow> jsdate" where
  "Date_string s =
     (if length s = 10 \<and> s ! 4 = CHR ''-'' \<and> s ! 7 = CHR ''-'' \<and>
         (\<forall>c \<in> set (take 4 s @ take 2 (drop 5 s) @ drop 8 s). is_digit c)
      then
        (let y = int (nat_of_digits (take 4 s));
             m = int (nat_of_digits (take 2 (drop 5 s)));
             d = int (nat_of_digits (drop 8 s))
         in if 1 \<le> m \<and> m \<le> 12 \<and> 1 \<le> d \<and> d \<le> DaysInMonth y m
            then TimeClip (MakeDay y (m - 1) d * msPerDay) else None)
      else None)"

text \<open>\<^verbatim>\<open>getTime()\<close>, and the local-time getters as integers (\<open>None\<close> is \<^verbatim>\<open>NaN\<close>).\<close>

definition getTime :: "jsdate \<Rightarrow> number" where
  "getTime d = (case d of None \<Rightarrow> NaN | Some t \<Rightarrow> Fin (of_int t))"

definition getFullYear :: "int \<Rightarrow> jsdate \<Rightarrow> int option" where
  "getFullYear tz d = map_option (\<lambda>t. YearFromDay (Day (LocalTime tz t))) d"

definition getMonth :: "int \<Rightarrow> jsdate \<Rightarrow> int option" where
  "getMonth tz d = map_option (\<lambda>t. MonthFromDay (Day (LocalTime tz t))) d"

definition getDate :: "int \<Rightarrow> jsdate \<Rightarrow> int option" where
  "getDate tz d = map_option (\<lambda>t. DateFromDay (Day (LocalTime tz t))) d"

text \<open>An integer or \<^verbatim>\<open>NaN\<close> in a template literal.\<close>

definition ToString :: "int option \<Rightarrow> string" where
  "ToString n = (case n of None \<Rightarrow> ''NaN'' | Some i \<Rightarrow> string_of_int i)"

text \<open>
  \<^verbatim>\<open>function getMonthKey(date) { return `${date.getFullYear()}-${date.getMonth() + 1}`; }\<close>
\<close>

definition getMonthKey :: "int \<Rightarrow> jsdate \<Rightarrow> string" where
  "getMonthKey tz d =
     ToString (getFullYear tz d) @ ''-'' @ ToString (map_option (\<lambda>m. m + 1) (getMonth tz d))"

text \<open>
  \<^verbatim>\<open>toISOString()\<close>: the UTC date and time; a year outside 0 to 9999 is printed with a
  sign and six digits. An invalid date raises a RangeError (\<open>None\<close>).
\<close>

definition pad :: "nat \<Rightarrow> string \<Rightarrow> string" where
  "pad n s = replicate (n - length s) CHR ''0'' @ s"

definition toISOString :: "jsdate \<Rightarrow> string option" where
  "toISOString d =
     (case d of
        None \<Rightarrow> None
      | Some t \<Rightarrow>
          (let dy = Day t; y = YearFromDay dy; ms = t mod msPerDay
           in Some
             ((if 0 \<le> y \<and> y \<le> 9999 then pad 4 (digits_of_nat (nat y))
               else (if y < 0 then CHR ''-'' else CHR ''+'') # pad 6 (digits_of_nat (nat \<bar>y\<bar>)))
              @ ''-'' @ pad 2 (digits_of_nat (nat (MonthFromDay dy + 1)))
              @ ''-'' @ pad 2 (digits_of_nat (nat (DateFromDay dy)))
              @ ''T'' @ pad 2 (digits_of_nat (nat (ms div 3600000)))
              @ '':'' @ pad 2 (digits_of_nat (nat (ms div 60000 mod 60)))
              @ '':'' @ pad 2 (digits_of_nat (nat (ms div 1000 mod 60)))
              @ ''.'' @ pad 3 (digits_of_nat (nat (ms mod 1000))) @ ''Z'')))"

text \<open>
  \<^verbatim>\<open>function toLocalDateInput(date) {
    const offset = date.getTimezoneOffset();
    const local = new Date(date.getTime() - offset * 60000);
    return local.toISOString().split("T")[0]; }\<close>
\<close>

definition toLocalDateInput :: "int \<Rightarrow> jsdate \<Rightarrow> string option" where
  "toLocalDateInput tz d =
     (let local = (case d of None \<Rightarrow> None | Some t \<Rightarrow> TimeClip (t - tz * 60000))
      in map_option (\<lambda>iso. hd (split CHR ''T'' iso)) (toISOString local))"

text \<open>
  \<^verbatim>\<open>monthFormatter.format(date)\<close> for the \<^verbatim>\<open>en-US\<close> format with a long month and a
  numeric year, in local time: \<^verbatim>\<open>March 2024\<close>. A year before 1 prints as the year of
  its era. An invalid date raises a RangeError (\<open>None\<close>).
\<close>

definition monthName :: "int \<Rightarrow> string" where
  "monthName m =
     (if m = 0 then ''January'' else if m = 1 then ''February'' else if m = 2 then ''March''
      else if m = 3 then ''April'' else if m = 4 then ''May'' else if m = 5 then ''June''
      else if m = 6 then ''July'' else if m = 7 then ''August'' else if m = 8 then ''September''
      else if m = 9 then ''October'' else if m = 10 then ''November'' else ''December'')"

definition monthFormatter_format :: "int \<Rightarrow> jsdate \<Rightarrow> string option" where
  "monthFormatter_format tz d =
     map_option
       (\<lambda>t. let dy = Day (LocalTime tz t); y = YearFromDay dy
            in monthName (MonthFromDay dy) @ '' '' @ string_of_int (if 0 < y then y else 1 - y))
       d"

subsection \<open>Arrays, sets and objects\<close>

text \<open>
  \<^verbatim>\<open>array.sort(comparefn)\<close>. The standard asks for a stable sort, in which \<open>x\<close> comes after
  \<open>y\<close> when \<^verbatim>\<open>comparefn(x, y) > 0\<close> and a result \<^verbatim>\<open>NaN\<close> counts as \<open>0\<close>. For a
  consistent comparison function every such sort returns the same array, which the
  insertion sort below computes; for an inconsistent one the standard leaves the order to
  the engine.
\<close>

fun insert_js :: "('a \<Rightarrow> 'a \<Rightarrow> number) \<Rightarrow> 'a \<Rightarrow> 'a list \<Rightarrow> 'a list" where
  "insert_js comparefn x [] = [x]"
| "insert_js comparefn x (y # ys) =
     (if num_gt (comparefn x y) (Fin 0) then y # insert_js comparefn x ys else x # y # ys)"

definition sort_js :: "('a \<Rightarrow> 'a \<Rightarrow> number) \<Rightarrow> 'a list \<Rightarrow> 'a list" where
  "sort_js comparefn xs = foldr (insert_js comparefn) xs []"

text \<open>A \<^verbatim>\<open>Set\<close> keeps its elements in the order of their first insertion.\<close>

definition Set_add :: "'a list \<Rightarrow> 'a \<Rightarrow> 'a list" where
  "Set_add s x = (if x \<in> set s then s else s @ [x])"

text \<open>
  Array destructuring \<^verbatim>\<open>[a, b] = numbers\<close>: a missing element is \<^verbatim>\<open>undefined\<close>, which is
  \<^verbatim>\<open>NaN\<close> wherever this program uses it as a number.
\<close>

definition element :: "number list \<Rightarrow> nat \<Rightarrow> number" where
  "element xs i = (if i < length xs then xs ! i else NaN)"

definition number_of :: "int option \<Rightarrow> number" where
  "number_of n = (case n of None \<Rightarrow> NaN | Some i \<Rightarrow> Fin (of_int i))"

subsection \<open>Expense records\<close>

datatype category = Housing | Food | Transport | Utilities | Health | Leisure | Other

text \<open>The field \<^verbatim>\<open>id\<close> is written \<open>id'\<close> (\<open>id\<close> is the identity function of HOL).\<close>

record expense =
  id' :: string
  label :: string
  category :: category
  amount :: number
  date :: string

record form =
  form_label :: string
  form_amount :: string
  form_category :: category
  form_date :: string

text \<open>
  The state of the component: the three \<^verbatim>\<open>useState\<close> cells, the browser's
  \<^verbatim>\<open>localStorage\<close> (a map from keys to strings) and what was written to the console.
\<close>

record state =
  expenses :: "expense list"
  form :: form
  activeMonthKey :: string
  localStorage :: "string \<rightharpoonup> string"
  console :: "string list"

definition storageKey :: string where
  "storageKey = ''minimal-expense-tracker''"

subsection \<open>The platform\<close>

text \<open>
  What the browser supplies during one event: the time zone offset, the current time
  (\<^verbatim>\<open>Date.now()\<close>, also the time of \<^verbatim>\<open>new Date()\<close>) and, where
  \<^verbatim>\<open>crypto.randomUUID\<close> exists, the values its successive calls return.
\<close>

record env =
  timezoneOffset :: int
  Date_now :: int
  randomUUID :: "(nat \<Rightarrow> string) option"

text \<open>
  \<^verbatim>\<open>JSON.stringify\<close> and \<^verbatim>\<open>JSON.parse\<close> on arrays of expenses are parameters of the
  model. \<open>parse\<close> returns \<open>None\<close> where the \<^verbatim>\<open>try\<close> block of the load effect raises:
  the text is not JSON, or its value is not an array of records.
\<close>

record JSON =
  stringify :: "expense list \<Rightarrow> string"
  parse :: "string \<Rightarrow> expense list option"

subsection \<open>JSON values\<close>

text \<open>
  JSON values. \<^verbatim>\<open>JSON.stringify\<close> writes an expense as an object of its five fields and
  a number that is not finite as \<^verbatim>\<open>null\<close>.
\<close>

datatype json =
  JNull | JBool bool | JNumber rat | JString string | JArray "json list"
  | JObject "(string \<times> json) list"

definition category_name :: "category \<Rightarrow> string" where
  "category_name c =
     (case c of Housing \<Rightarrow> ''Housing'' | Food \<Rightarrow> ''Food'' | Transport \<Rightarrow> ''Transport''
      | Utilities \<Rightarrow> ''Utilities'' | Health \<Rightarrow> ''Health'' | Leisure \<Rightarrow> ''Leisure''
      | Other \<Rightarrow> ''Other'')"

definition category_of_name :: "string \<Rightarrow> category option" where
  "category_of_name s =
     (if s = ''Housing'' then Some Housing else if s = ''Food'' then Some Food
      else if s = ''Transport'' then Some Transport else if s = ''Utilities'' then Some Utilities
      else if s = ''Health'' then Some Health else if s = ''Leisure'' then Some Leisure
      else if s = ''Other'' then Some Other else None)"

definition number_to_json :: "number \<Rightarrow> json" where
  "number_to_json a = (case a of Fin q \<Rightarrow> JNumber q | _ \<Rightarrow> JNull)"

definition expense_to_json :: "expense \<Rightarrow> json" where
  "expense_to_json e =
     JObject [(''id'', JString (id' e)), (''label'', JString (label e)),
              (''category'', JString (category_name (category e))),
              (''amount'', number_to_json (amount e)), (''date'', JString (date e))]"

definition to_json :: "expense list \<Rightarrow> json" where
  "to_json xs = JArray (map expense_to_json xs)"

text \<open>
  Reading a value back as the array of expenses that \<^verbatim>\<open>const parsed: Expense[]\<close> takes it
  for. An amount \<^verbatim>\<open>null\<close> is kept as it is by the page; every use of an amount (the sums)
  reads it as 0, which is how it is modelled. A value that is not an array of such objects
  is \<open>None\<close>, as for \<open>parse\<close> above.
\<close>

definition json_to_number :: "json \<Rightarrow> number option" where
  "json_to_number v = (case v of JNumber q \<Rightarrow> Some (Fin q) | JNull \<Rightarrow> Some (Fin 0) | _ \<Rightarrow> None)"

definition json_string :: "json option \<Rightarrow> string option" where
  "json_string v = (case v of Some (JString s) \<Rightarrow> Some s | _ \<Rightarrow> None)"

definition json_to_expense :: "json \<Rightarrow> expense option" where
  "json_to_expense v =
     (case v of
        JObject kvs \<Rightarrow>
          (case (json_string (map_of kvs ''id''), json_string (map_of kvs ''label''),
                 Option.bind (json_string (map_of kvs ''category'')) category_of_name,
                 Option.bind (map_of kvs ''amount'') json_to_number,
                 json_string (map_of kvs ''date'')) of
             (Some i, Some l, Some c, Some a, Some d) \<Rightarrow>
               Some \<lparr>id' = i, label = l, category = c, amount = a, date = d\<rparr>
           | _ \<Rightarrow> None)
      | _ \<Rightarrow> None)"

definition from_json :: "json \<Rightarrow> expense list option" where
  "from_json v =
     (case v of
        JArray vs \<Rightarrow>
          (if \<forall>x \<in> set vs. json_to_expense x \<noteq> None
           then Some (map (\<lambda>x. the (json_to_expense x)) vs) else None)
      | _ \<Rightarrow> None)"

text \<open>
  The text of a JSON value and the value of a JSON text are parameters; \<open>JSON_of\<close> builds
  \<^verbatim>\<open>JSON.stringify\<close> and \<^verbatim>\<open>JSON.parse\<close> on expenses from them.
\<close>

record JSON_text =
  json_text :: "json \<Rightarrow> string"
  json_value :: "string \<Rightarrow> json option"

definition JSON_of :: "JSON_text \<Rightarrow> JSON" where
  "JSON_of T =
     \<lparr>stringify = (\<lambda>xs. json_text T (to_json xs)),
      parse = (\<lambda>s. case json_value T s of None \<Rightarrow> None | Some v \<Rightarrow> from_json v)\<rparr>"

text \<open>An expense as it is read back from its JSON value.\<close>

definition reread :: "expense \<Rightarrow> expense" where
  "reread e = e\<lparr>amount := (case amount e of Fin q \<Rightarrow> Fin q | _ \<Rightarrow> Fin 0)\<rparr>"

subsection \<open>The seed generator\<close>

text \<open>
  \<^verbatim>\<open>createSeedExpenses()\<close>: five samples on days 2, 3, 5, 7 and 10 of the current month,
  each with a random UUID or, without \<^verbatim>\<open>crypto.randomUUID\<close>, the id
  \<^verbatim>\<open>`${item.label}-${item.date}`\<close>. \<open>None\<close> is the RangeError of
  \<^verbatim>\<open>toLocalDateInput\<close>.
\<close>

definition sample :: "env \<Rightarrow> (string \<times> category \<times> number \<times> string option) list" where
  "sample env =
     (let month = number_of (getMonth (timezoneOffset env) (Some (Date_now env)));
          year = number_of (getFullYear (timezoneOffset env) (Some (Date_now env)));
          day = (\<lambda>n. toLocalDateInput (timezoneOffset env) (Date_fields (timezoneOffset env) year month (Fin n)))
      in [(''Morning coffee'', Food, Fin (9 / 2), day 2),
          (''Weekly groceries'', Food, Fin (431 / 5), day 3),
          (''Metro pass'', Transport, Fin 28, day 5),
          (''Electric bill'', Utilities, Fin (259 / 4), day 7),
          (''Yoga class'', Health, Fin 22, day 10)])"

definition createSeedExpenses :: "env \<Rightarrow> expense list option" where
  "createSeedExpenses env =
     (if \<exists>item \<in> set (sample env). snd (snd (snd item)) = None then None
      else Some
        (map (\<lambda>(i, l, c, a, d).
               \<lparr>id' = (case randomUUID env of
                         Some uuid \<Rightarrow> uuid i
                       | None \<Rightarrow> l @ ''-'' @ the d),
                label = l, category = c, amount = a, date = the d\<rparr>)
           (zip [0 ..< 5] (sample env))))"

subsection \<open>The load and persist effects\<close>

text \<open>The comparison function \<^verbatim>\<open>(a, b) => new Date(b.date).getTime() - new Date(a.date).getTime()\<close>.\<close>

definition by_date_desc :: "expense \<Rightarrow> expense \<Rightarrow> number" where
  "by_date_desc a b = num_sub (getTime (Date_string (date b))) (getTime (Date_string (date a)))"

text \<open>
  The first effect, on mount. A stored text that is \<^verbatim>\<open>null\<close> or empty is falsy. The
  \<^verbatim>\<open>catch\<close> branch only writes to the console.
\<close>

definition load :: "env \<Rightarrow> JSON \<Rightarrow> state \<Rightarrow> state" where
  "load env J st =
     (let stored = localStorage st storageKey in
      if stored \<noteq> None \<and> stored \<noteq> Some [] then
        (case parse J (the stored) of
           Some parsed \<Rightarrow>
             (case sort_js by_date_desc parsed of
                [] \<Rightarrow> st\<lparr>expenses := parsed\<rparr>
              | latest # _ \<Rightarrow>
                  st\<lparr>expenses := parsed,
                     activeMonthKey := getMonthKey (timezoneOffset env) (Date_string (date latest))\<rparr>)
         | None \<Rightarrow> st\<lparr>console := console st @ [''Failed to parse expenses from storage'']\<rparr>)
      else
        (case createSeedExpenses env of
           None \<Rightarrow> st
         | Some seed \<Rightarrow>
             st\<lparr>expenses := seed,
                localStorage := (localStorage st)(storageKey \<mapsto> stringify J seed)\<rparr>))"

text \<open>The second effect, after every change of \<^verbatim>\<open>expenses\<close>.\<close>

definition persist :: "JSON \<Rightarrow> state \<Rightarrow> state" where
  "persist J st = st\<lparr>localStorage := (localStorage st)(storageKey \<mapsto> stringify J (expenses st))\<rparr>"

subsection \<open>Derived values\<close>

text \<open>\<^verbatim>\<open>key.split("-").map(Number)\<close>\<close>

definition key_numbers :: "string \<Rightarrow> number list" where
  "key_numbers k = map Number (split CHR ''-'' k)"

text \<open>\<^verbatim>\<open>new Date(year, month - 1)\<close> for \<^verbatim>\<open>[year, month] = key.split("-").map(Number)\<close>.\<close>

definition key_date :: "int \<Rightarrow> string \<Rightarrow> jsdate" where
  "key_date tz k =
     Date_fields tz (element (key_numbers k) 0) (num_sub (element (key_numbers k) 1) (Fin 1)) (Fin 1)"

record month_option =
  key :: string
  month_label :: string

text \<open>
  \<^verbatim>\<open>months\<close>: the month keys of the records in a \<^verbatim>\<open>Set\<close>, sorted by the time of
  \<^verbatim>\<open>new Date(year, month - 1)\<close>, later first, each with its label. \<open>None\<close> is the
  RangeError of the formatter.
\<close>

definition months :: "int \<Rightarrow> expense list \<Rightarrow> month_option list option" where
  "months tz xs =
     (let unique = foldl Set_add [] (map (\<lambda>expense. getMonthKey tz (Date_string (date expense))) xs);
          sorted = sort_js (\<lambda>a b. num_sub (getTime (key_date tz b)) (getTime (key_date tz a))) unique
      in if \<exists>k \<in> set sorted. key_date tz k = None then None
         else Some (map (\<lambda>k. \<lparr>key = k, month_label = the (monthFormatter_format tz (key_date tz k))\<rparr>)
                     sorted))"


definition monthTotal :: "expense list \<Rightarrow> number" where
  "monthTotal xs = foldl (\<lambda>sum expense. num_add sum (amount expense)) (Fin 0) xs"

definition weeklyAverage :: "int \<Rightarrow> string \<Rightarrow> number \<Rightarrow> number" where
  "weeklyAverage tz k monthTotal' =
     (let year = element (key_numbers k) 0;
          month = element (key_numbers k) 1;
          firstDay = Date_fields tz year (num_sub month (Fin 1)) (Fin 1);
          lastDay = Date_fields tz year month (Fin 0);
          totalDays = num_add (num_sub (number_of (getDate tz lastDay))
                                       (number_of (getDate tz firstDay))) (Fin 1);
          weeks = num_div totalDays (Fin 7)
      in if num_gt weeks (Fin 0) then num_div monthTotal' weeks else monthTotal')"

text \<open>
  The tally is an object whose keys are categories; its entries come in the order in which
  the keys were first assigned. \<^verbatim>\<open>acc[c] = (acc[c] ?? 0) + amount\<close>:
\<close>

fun tally_add :: "(category \<times> number) list \<Rightarrow> category \<Rightarrow> number \<Rightarrow> (category \<times> number) list" where
  "tally_add [] c a = [(c, num_add (Fin 0) a)]"
| "tally_add ((k, v) # acc) c a =
     (if k = c then (k, num_add v a) # acc else (k, v) # tally_add acc c a)"

definition tally :: "expense list \<Rightarrow> (category \<times> number) list" where
  "tally xs = foldl (\<lambda>acc expense. tally_add acc (category expense) (amount expense)) [] xs"

definition topCategories :: "expense list \<Rightarrow> (category \<times> number) list" where
  "topCategories xs = take 3 (sort_js (\<lambda>(ca, a) (cb, b). num_sub b a) (tally xs))"

subsection \<open>Create\<close>

text \<open>
  The guard of \<^verbatim>\<open>handleSubmit\<close>:
  \<^verbatim>\<open>!form.label.trim() || !amount || Number.isNaN(amount)\<close> for
  \<^verbatim>\<open>amount = Number(form.amount)\<close>.
\<close>

definition rejected :: "form \<Rightarrow> bool" where
  "rejected f =
     (let amount = Number (form_amount f)
      in trim (form_label f) = [] \<or> \<not> truthy amount \<or> Number_isNaN amount)"

definition newExpense :: "env \<Rightarrow> form \<Rightarrow> expense" where
  "newExpense env f =
     \<lparr>id' = (case randomUUID env of
               Some uuid \<Rightarrow> uuid 0
             | None \<Rightarrow> string_of_int (Date_now env)),
      label = trim (form_label f),
      category = form_category f,
      amount = toFixed2 (Number (form_amount f)),
      date = form_date f\<rparr>"

definition handleSubmit :: "env \<Rightarrow> state \<Rightarrow> state" where
  "handleSubmit env st =
     (if rejected (form st) then st
      else
        st\<lparr>expenses := sort_js by_date_desc (newExpense env (form st) # expenses st),
           form := (form st)\<lparr>form_label := [], form_amount := []\<rparr>,
           activeMonthKey := getMonthKey (timezoneOffset env) (Date_string (date (newExpense env (form st))))\<rparr>)"


subsection \<open>Delete\<close>

text \<open>\<^verbatim>\<open>setExpenses((prev) => prev.filter((expense) => expense.id !== id))\<close>\<close>

definition handleDelete :: "string \<Rightarrow> state \<Rightarrow> state" where
  "handleDelete i st = st\<lparr>expenses := filter (\<lambda>expense. id' expense \<noteq> i) (expenses st)\<rparr>"

subsection \<open>What the specification says, in its own words\<close>

text \<open>
  ``The input rounded to 2 decimal digits'': a finite amount \<open>r\<close> is \<open>x\<close> rounded to two
  digits when \<open>100 * r\<close> is an integer and no number with two decimal digits is nearer to
  \<open>x\<close>. An infinity or \<^verbatim>\<open>NaN\<close> rounds to itself.
\<close>

fun rounded_to_2_digits :: "number \<Rightarrow> number \<Rightarrow> bool" where
  "rounded_to_2_digits (Fin x) (Fin r) = (of_int \<lfloor>r * 100\<rfloor> = r * 100 \<and> \<bar>r - x\<bar> \<le> 1 / 200)"
| "rounded_to_2_digits x r = (x = r)"

text \<open>A number that is neither \<^verbatim>\<open>NaN\<close> nor an infinity.\<close>

definition Number_isFinite :: "number \<Rightarrow> bool" where
  "Number_isFinite a = (case a of Fin q \<Rightarrow> True | _ \<Rightarrow> False)"

text \<open>The sum of the amounts of the records of one category.\<close>

definition category_sum :: "expense list \<Rightarrow> category \<Rightarrow> number" where
  "category_sum xs c = monthTotal (filter (\<lambda>e. category e = c) xs)"


subsection \<open>Example data\<close>

definition january :: "expense list" where
  "january =
     [\<lparr>id' = ''1'', label = ''Lunch'', category = Food, amount = Fin 10, date = ''2024-01-02''\<rparr>,
      \<lparr>id' = ''2'', label = ''Dinner'', category = Food, amount = Fin 20, date = ''2024-01-05''\<rparr>,
      \<lparr>id' = ''3'', label = ''Bus'', category = Transport, amount = Fin 5, date = ''2024-01-10''\<rparr>]"

definition example_env :: env where
  "example_env = \<lparr>timezoneOffset = 0, Date_now = 1710500000000, randomUUID = None\<rparr>"

definition rent :: expense where
  "rent = \<lparr>id' = ''r1'', label = ''Rent'', category = Housing, amount = Fin 900,
           date = ''2024-03-01''\<rparr>"

definition tea :: expense where
  "tea = \<lparr>id' = ''t1'', label = ''Tea'', category = Food, amount = Fin 3,
          date = ''2024-01-05''\<rparr>"

definition example_state :: "form \<Rightarrow> state" where
  "example_state f =
     \<lparr>expenses = [rent, tea], form = f, activeMonthKey = ''2024-3'',
      localStorage = Map.empty, console = []\<rparr>"

text \<open>The seed of March 2024.\<close>

definition march_seed :: "expense list" where
  "march_seed =
    [\<lparr>id' = ''Morning coffee-2024-03-02'', label = ''Morning coffee'',
        category = Food, amount = Fin (9 / 2), date = ''2024-03-02''\<rparr>,
     \<lparr>id' = ''Weekly groceries-2024-03-03'', label = ''Weekly groceries'',
        category = Food, amount = Fin (431 / 5), date = ''2024-03-03''\<rparr>,
     \<lparr>id' = ''Metro pass-2024-03-05'', label = ''Metro pass'',
        category = Transport, amount = Fin 28, date = ''2024-03-05''\<rparr>,
     \<lparr>id' = ''Electric bill-2024-03-07'', label = ''Electric bill'',
        category = Utilities, amount = Fin (259 / 4), date = ''2024-03-07''\<rparr>,
     \<lparr>id' = ''Yoga class-2024-03-10'', label = ''Yoga class'',
        category = Health, amount = Fin 22, date = ''2024-03-10''\<rparr>]"

text \<open>Expenses with infinite amounts, and the forms that create such records.\<close>

definition unbounded :: "expense list" where
  "unbounded =
     [\<lparr>id' = ''1'', label = ''Prize'', category = Food, amount = PosInf, date = ''2024-01-02''\<rparr>,
      \<lparr>id' = ''2'', label = ''Fine'', category = Food, amount = NegInf, date = ''2024-01-05''\<rparr>,
      \<lparr>id' = ''3'', label = ''Pills'', category = Health, amount = Fin 7, date = ''2024-01-07''\<rparr>,
      \<lparr>id' = ''4'', label = ''Bus'', category = Transport, amount = Fin 5, date = ''2024-01-10''\<rparr>]"

definition infinity_form :: form where
  "infinity_form =
     \<lparr>form_label = ''Prize'', form_amount = ''Infinity'', form_category = Food,
      form_date = ''2024-01-02''\<rparr>"


definition blank_label_form :: form where
  "blank_label_form =
     \<lparr>form_label = ''  '', form_amount = ''12'', form_category = Food, form_date = ''2024-02-10''\<rparr>"

text \<open>
  A codec for the examples: what \<^verbatim>\<open>JSON.stringify\<close> and \<^verbatim>\<open>JSON.parse\<close> do on the
  store of \<open>example_state\<close>, on the empty store and on a text that is not JSON.
\<close>

definition example_text :: string where
  \<open>example_text = ''[{"id":"r1","label":"Rent","category":"Housing","amount":900,"date":"2024-03-01"},{"id":"t1","label":"Tea","category":"Food","amount":3,"date":"2024-01-05"}]''\<close>

definition example_JSON :: JSON where
  "example_JSON =
     \<lparr>stringify = (\<lambda>xs. if xs = [rent, tea] then example_text else ''[]''),
      parse = (\<lambda>s. if s = example_text then Some [rent, tea]
                    else if s = ''[]'' then Some [] else None)\<rparr>"

definition broken_state :: state where
  "broken_state =
     \<lparr>expenses = [], form = blank_label_form, activeMonthKey = ''2024-3'',
      localStorage = [storageKey \<mapsto> ''{oops''], console = []\<rparr>"

definition fresh_state :: state where
  "fresh_state =
     \<lparr>expenses = [], form = blank_label_form, activeMonthKey = ''2024-3'',
      localStorage = Map.empty, console = []\<rparr>"

text \<open>A store with an infinite amount, and its JSON text.\<close>

definition prize :: expense where
  "prize = \<lparr>id' = ''1'', label = ''Prize'', category = Food, amount = PosInf,
            date = ''2024-01-02''\<rparr>"

definition prize_text :: string where
  \<open>prize_text = ''[{"id":"1","label":"Prize","category":"Food","amount":null,"date":"2024-01-02"}]''\<close>

text \<open>
  The JSON texts of the example stores: what the platform prints for their values, and what
  it reads back.
\<close>

definition example_codec :: JSON_text where
  "example_codec =
     \<lparr>json_text = (\<lambda>v. if v = to_json [rent, tea] then example_text
                        else if v = to_json [prize] then prize_text else ''[]''),
      json_value = (\<lambda>s. if s = example_text then Some (to_json [rent, tea])
                         else if s = prize_text then Some (to_json [prize])
                         else if s = ''[]'' then Some (JArray []) else None)\<rparr>"

text \<open>The example page mounted anew on the \<^verbatim>\<open>localStorage\<close> of a state.\<close>

definition remount :: "state \<Rightarrow> state" where
  "remount st = fresh_state\<lparr>localStorage := localStorage st\<rparr>"

definition prize_state :: state where
  "prize_state =
     \<lparr>expenses = [prize], form = blank_label_form, activeMonthKey = ''2024-1'',
      localStorage = Map.empty, console = []\<rparr>"

definition negative_form :: form where
  "negative_form =
     \<lparr>form_label = ''Refund'', form_amount = ''-5'', form_category = Other,
      form_date = ''2024-02-10''\<rparr>"

definition coffee_form :: form where
  "coffee_form =
     \<lparr>form_label = '' Coffee '', form_amount = ''12.345'', form_category = Food,
      form_date = ''2024-02-10''\<rparr>"

section \<open>Properties\<close>

subsection \<open>The calendar\<close>

lemma div_bounds:
  fixes x n :: int
  assumes "0 < n"
  shows "n * (x div n) \<le> x" and "x < n * (x div n) + n"
  using mult_div_mod_eq [of n x] pos_mod_sign [OF assms, of x] pos_mod_bound [OF assms, of x]
  by linarith+

lemma div_step:
  fixes x n :: int
  assumes "0 < n"
  shows "(x + 1) div n = x div n + (if (x + 1) mod n = 0 then 1 else 0)"
proof -
  define q r where "q = x div n" and "r = x mod n"
  have x: "x = n * q + r" and r: "0 \<le> r" "r < n"
    using assms by (simp_all add: q_def r_def)
  show ?thesis
  proof (cases "r + 1 = n")
    case True
    then have "x + 1 = n * (q + 1) + 0"
      using x by (simp add: algebra_simps)
    then have "(x + 1) div n = q + 1" and "(x + 1) mod n = 0"
      using assms by (metis int_div_pos_eq order_refl, metis int_mod_pos_eq order_refl)
    then show ?thesis by (simp add: q_def)
  next
    case False
    then have "x + 1 = n * q + (r + 1)" and "0 \<le> r + 1" and "r + 1 < n"
      using x r by simp_all
    then have "(x + 1) div n = q" and "(x + 1) mod n = r + 1"
      by (metis int_div_pos_eq, metis int_mod_pos_eq)
    then show ?thesis using r by (simp add: q_def)
  qed
qed

lemma DayFromYear_bounds:
  "146097 * (y - 1970) - 506 \<le> 400 * DayFromYear y"
  "400 * DayFromYear y \<le> 146097 * (y - 1970) + 589"
proof -
  define a b c where "a = (y - 1969) div 4" and "b = (y - 1901) div 100" and "c = (y - 1601) div 400"
  have 1: "4 * a \<le> y - 1969" "y - 1969 < 4 * a + 4"
    unfolding a_def by (rule div_bounds, simp)+
  have 2: "100 * b \<le> y - 1901" "y - 1901 < 100 * b + 100"
    unfolding b_def by (rule div_bounds, simp)+
  have 3: "400 * c \<le> y - 1601" "y - 1601 < 400 * c + 400"
    unfolding c_def by (rule div_bounds, simp)+
  have d: "DayFromYear y = 365 * (y - 1970) + a - b + c"
    by (simp add: DayFromYear_def a_def b_def c_def)
  show "146097 * (y - 1970) - 506 \<le> 400 * DayFromYear y"
    using 1 2 3 unfolding d by (simp add: algebra_simps)
  show "400 * DayFromYear y \<le> 146097 * (y - 1970) + 589"
    using 1 2 3 unfolding d by (simp add: algebra_simps)
qed

lemma DayFromYear_strict_mono: "y < z \<Longrightarrow> DayFromYear y < DayFromYear z"
  using DayFromYear_bounds(2) [of y] DayFromYear_bounds(1) [of z] by (simp add: algebra_simps)

lemma DayFromYear_Suc: "DayFromYear (y + 1) = DayFromYear y + DaysInYear y"
proof -
  define X Y Z where "X = (y - 1969) div 4" and "Y = (y - 1901) div 100" and "Z = (y - 1601) div 400"
  define A B C :: int where "A = (if y mod 4 = 0 then 1 else 0)"
    and "B = (if y mod 100 = 0 then 1 else 0)" and "C = (if y mod 400 = 0 then 1 else 0)"
  have a: "(y + 1 - 1969) div 4 = X + A"
  proof -
    have "(y - 1969 + 1) mod 4 = y mod 4" by algebra
    then show ?thesis using div_step [of 4 "y - 1969"] by (simp add: X_def A_def add.commute)
  qed
  have b: "(y + 1 - 1901) div 100 = Y + B"
  proof -
    have "(y - 1901 + 1) mod 100 = y mod 100" by algebra
    then show ?thesis using div_step [of 100 "y - 1901"] by (simp add: Y_def B_def add.commute)
  qed
  have c: "(y + 1 - 1601) div 400 = Z + C"
  proof -
    have "(y - 1601 + 1) mod 400 = y mod 400" by algebra
    then show ?thesis using div_step [of 400 "y - 1601"] by (simp add: Z_def C_def add.commute)
  qed
  have 1: "DayFromYear (y + 1) = 365 * (y + 1 - 1970) + (X + A) - (Y + B) + (Z + C)"
    unfolding DayFromYear_def a b c ..
  have 2: "DayFromYear y = 365 * (y - 1970) + X - Y + Z"
    unfolding DayFromYear_def X_def Y_def Z_def ..
  have h: "y mod 400 = 0 \<Longrightarrow> y mod 100 = 0" "y mod 100 = 0 \<Longrightarrow> y mod 4 = 0"
    by auto
  have 3: "DaysInYear y = 365 + A - B + C"
  proof (cases "y mod 4 = 0")
    case False
    have "y mod 100 \<noteq> 0" using False h(2) by (rule contrapos_nn)
    then have "y mod 400 \<noteq> 0" using h(1) by (rule contrapos_nn)
    note n = \<open>y mod 100 \<noteq> 0\<close> \<open>y mod 400 \<noteq> 0\<close>
    with False n show ?thesis by (simp only: DaysInYear_def InLeapYear_def A_def B_def C_def) simp
  next
    case 4: True
    show ?thesis
    proof (cases "y mod 100 = 0")
      case False
      then have "y mod 400 \<noteq> 0" using h(1) by (rule contrapos_nn)
      with 4 False show ?thesis by (simp only: DaysInYear_def InLeapYear_def A_def B_def C_def) simp
    next
      case True
      with 4 show ?thesis
        by (cases "y mod 400 = 0") (simp_all only: DaysInYear_def InLeapYear_def A_def B_def C_def, simp_all)
    qed
  qed
  show ?thesis unfolding 1 2 3 by (simp add: algebra_simps)
qed

lemma YearFromDay_eq:
  assumes "DayFromYear y \<le> d" and "d < DayFromYear (y + 1)"
  shows "YearFromDay d = y"
proof -
  define e where "e = 1970 + (d * 400) div 146097"
  have e: "146097 * (e - 1970) \<le> 400 * d" "400 * d < 146097 * (e - 1970) + 146097"
    using div_bounds [of 146097 "d * 400"] by (simp_all add: e_def algebra_simps)
  have lo: "y < z" if "d < DayFromYear z" for z
  proof (rule ccontr)
    assume "\<not> y < z"
    then have "DayFromYear z \<le> DayFromYear y"
      using DayFromYear_strict_mono [of z y] by (cases "z = y") auto
    with that assms(1) show False by simp
  qed
  have hi: "z \<le> y" if "DayFromYear z \<le> d" for z
  proof (rule ccontr)
    assume "\<not> z \<le> y"
    then have "DayFromYear (y + 1) \<le> DayFromYear z"
      using DayFromYear_strict_mono [of "y + 1" z] by (cases "z = y + 1") auto
    with that assms(2) show False by simp
  qed
  have "e - 1 \<le> y"
    using e(1) assms(2) DayFromYear_bounds(2) [of "y + 1"] by (simp add: algebra_simps)
  moreover have "y \<le> e + 1"
    using e(2) assms(1) DayFromYear_bounds(1) [of y] by (simp add: algebra_simps)
  ultimately have "d < DayFromYear e \<Longrightarrow> y = e - 1"
    and "DayFromYear (e + 1) \<le> d \<Longrightarrow> y = e + 1"
    and "\<not> d < DayFromYear e \<Longrightarrow> \<not> DayFromYear (e + 1) \<le> d \<Longrightarrow> y = e"
    using lo [of e] hi [of "e + 1"] hi [of e] lo [of "e + 1"] by auto
  then show ?thesis
    unfolding YearFromDay_def e_def [symmetric] Let_def by auto
qed

lemma YearFromDay_offset:
  assumes "0 \<le> k" and "k < DaysInYear y"
  shows "YearFromDay (DayFromYear y + k) = y"
  using assms by (intro YearFromDay_eq) (simp_all add: DayFromYear_Suc)

lemma month_cases:
  fixes m :: int
  assumes "1 \<le> m" and "m \<le> 12"
  shows "m = 1 \<or> m = 2 \<or> m = 3 \<or> m = 4 \<or> m = 5 \<or> m = 6 \<or> m = 7 \<or> m = 8 \<or> m = 9 \<or>
         m = 10 \<or> m = 11 \<or> m = 12"
  using assms by arith

lemma MakeDay_month:
  assumes "1 \<le> m" and "m \<le> 12"
  shows "MakeDay y (m - 1) d = DayFromYear y + (MonthStart (InLeapYear y) (m - 1) + d - 1)"
  using assms by (simp add: MakeDay_def Let_def algebra_simps)

lemma day_in_year:
  assumes "1 \<le> m" and "m \<le> 12" and "1 \<le> d" and "d \<le> DaysInMonth y m"
  shows "0 \<le> MonthStart (InLeapYear y) (m - 1) + d - 1"
    and "MonthStart (InLeapYear y) (m - 1) + d - 1 < DaysInYear y"
  using month_cases [OF assms(1,2)] assms(3,4)
  by (auto simp: MonthStart_def DaysInMonth_def DaysInYear_def)

lemma fields_of_MakeDay:
  assumes "1 \<le> m" and "m \<le> 12" and "1 \<le> d" and "d \<le> DaysInMonth y m"
  shows "YearFromDay (MakeDay y (m - 1) d) = y"
    and "MonthFromDay (MakeDay y (m - 1) d) = m - 1"
    and "DateFromDay (MakeDay y (m - 1) d) = d"
proof -
  let ?k = "MonthStart (InLeapYear y) (m - 1) + d - 1"
  show Y: "YearFromDay (MakeDay y (m - 1) d) = y"
    unfolding MakeDay_month [OF assms(1,2)] using day_in_year [OF assms]
    by (rule YearFromDay_offset)
  have k: "DayWithinYear (MakeDay y (m - 1) d) = ?k"
    unfolding DayWithinYear_def Y by (simp add: MakeDay_month [OF assms(1,2)])
  show M: "MonthFromDay (MakeDay y (m - 1) d) = m - 1"
  proof (cases "InLeapYear y")
    case True
    show ?thesis
      unfolding MonthFromDay_def Y k Let_def
      using month_cases [OF assms(1,2)] assms(3,4) True
      by (elim disjE) (simp_all add: MonthStart_def DaysInMonth_def)
  next
    case False
    show ?thesis
      unfolding MonthFromDay_def Y k Let_def
      using month_cases [OF assms(1,2)] assms(3,4) False
      by (elim disjE) (simp_all add: MonthStart_def DaysInMonth_def)
  qed
  show "DateFromDay (MakeDay y (m - 1) d) = d"
    unfolding DateFromDay_def Y k M by simp
qed

lemma MakeDay_last:
  assumes "1 \<le> m" and "m \<le> 12"
  shows "MakeDay y m 0 = MakeDay y (m - 1) (DaysInMonth y m)"
proof (cases "m = 12")
  case True
  have "MakeDay y 12 0 = DayFromYear (y + 1) - 1"
    by (simp add: MakeDay_def MonthStart_def)
  also have "\<dots> = MakeDay y (12 - 1) (DaysInMonth y 12)"
    by (simp add: MakeDay_def MonthStart_def DaysInMonth_def DayFromYear_Suc DaysInYear_def)
  finally show ?thesis using True by simp
next
  case False
  with assms have "m div 12 = 0" and "m mod 12 = m" by simp_all
  then have l: "MakeDay y m 0 = DayFromYear y + MonthStart (InLeapYear y) m - 1"
    by (simp add: MakeDay_def)
  have r: "MakeDay y (m - 1) (DaysInMonth y m) =
      DayFromYear y + (MonthStart (InLeapYear y) (m - 1) + DaysInMonth y m - 1)"
    using assms by (rule MakeDay_month)
  have "MonthStart leap m = MonthStart leap (m - 1) + DaysInMonth y m" if "leap = InLeapYear y" for leap
    using month_cases [OF assms] False that
    by (cases leap; elim disjE) (simp_all add: MonthStart_def DaysInMonth_def)
  then show ?thesis unfolding l r by simp
qed

lemma Day_local:
  assumes "- 1440 < tz" and "tz \<le> 0"
  shows "Day (LocalTime tz (D * msPerDay)) = D"
proof -
  define r where "r = - tz * 60000"
  have r: "0 \<le> r" "r < 86400000" using assms by (simp_all add: r_def)
  have "(D * 86400000 + r) div 86400000 = D"
    using r by (metis add.commute div_mult_self1 div_pos_pos_trivial add.left_neutral zero_neq_numeral mult.commute)
  then show ?thesis by (simp add: Day_def LocalTime_def msPerDay_def r_def)
qed

lemma Day_local_UTC: "Day (LocalTime tz (UTC tz (D * msPerDay))) = D"
  by (simp add: Day_def LocalTime_def UTC_def msPerDay_def)

subsection \<open>Decimal numerals\<close>

lemma digit_chars:
  "digit_char 0 = CHR ''0''" "digit_char 1 = CHR ''1''" "digit_char 2 = CHR ''2''"
  "digit_char 3 = CHR ''3''" "digit_char 4 = CHR ''4''" "digit_char 5 = CHR ''5''"
  "digit_char 6 = CHR ''6''" "digit_char 7 = CHR ''7''" "digit_char 8 = CHR ''8''"
  "digit_char 9 = CHR ''9''"
  by code_simp+

lemma digit_vals:
  "digit_val CHR ''0'' = 0" "digit_val CHR ''1'' = 1" "digit_val CHR ''2'' = 2"
  "digit_val CHR ''3'' = 3" "digit_val CHR ''4'' = 4" "digit_val CHR ''5'' = 5"
  "digit_val CHR ''6'' = 6" "digit_val CHR ''7'' = 7" "digit_val CHR ''8'' = 8"
  "digit_val CHR ''9'' = 9"
  by code_simp+

lemma digit_char_props:
  assumes "d < 10"
  shows "is_digit (digit_char d)" and "digit_val (digit_char d) = d"
proof -
  from assms have d: "d = 0 \<or> d = 1 \<or> d = 2 \<or> d = 3 \<or> d = 4 \<or> d = 5 \<or> d = 6 \<or> d = 7 \<or> d = 8 \<or> d = 9"
    by arith
  then show "is_digit (digit_char d)"
    by (elim disjE) (simp_all add: is_digit_def digit_chars del: One_nat_def)
  from d show "digit_val (digit_char d) = d"
    by (elim disjE) (simp_all add: digit_chars digit_vals del: One_nat_def)
qed

lemma nat_of_digits_snoc: "nat_of_digits (ds @ [c]) = 10 * nat_of_digits ds + digit_val c"
  by (simp add: nat_of_digits_def)

lemma digits_of_nat_props:
  "digits_of_nat n \<noteq> []"
  "\<forall>c \<in> set (digits_of_nat n). is_digit c"
  "nat_of_digits (digits_of_nat n) = n"
proof (induction n rule: digits_of_nat.induct)
  case (1 n)
  {
    case 1
    show ?case by (subst digits_of_nat.simps) (simp del: digits_of_nat.simps)
  next
    case 2
    show ?case
      using "1.IH"(2)
      by (subst digits_of_nat.simps) (auto simp: digit_char_props simp del: digits_of_nat.simps)
  next
    case 3
    show ?case
      using "1.IH"(3)
      by (subst digits_of_nat.simps)
        (auto simp: digit_char_props nat_of_digits_snoc nat_of_digits_def
          simp del: digits_of_nat.simps)
  }
qed

subsection \<open>Sorting\<close>

lemma set_insert_js: "set (insert_js c x ys) = insert x (set ys)"
  by (induction ys) auto

lemma mset_insert_js: "mset (insert_js c x ys) = add_mset x (mset ys)"
  by (induction ys) auto

lemma mset_sort_js: "mset (sort_js c xs) = mset xs"
  by (induction xs) (auto simp: sort_js_def mset_insert_js)

lemma set_sort_js: "set (sort_js c xs) = set xs"
  using mset_sort_js [of c xs] by (metis set_mset_mset)

lemma length_sort_js: "length (sort_js c xs) = length xs"
  using mset_sort_js [of c xs] by (metis size_mset)

lemma sort_js_Cons: "sort_js c (x # xs) = insert_js c x (sort_js c xs)"
  by (simp add: sort_js_def)



subsection \<open>Delete\<close>

lemma filter_absent_id:
  "i \<notin> id' ` set xs \<Longrightarrow> filter (\<lambda>e. id' e \<noteq> i) xs = xs"
  by (induction xs) auto

lemma filter_present_id:
  "distinct (map id' xs) \<Longrightarrow> e \<in> set xs \<Longrightarrow>
   filter (\<lambda>x. id' x \<noteq> id' e) xs = remove1 e xs"
proof (induction xs)
  case Nil
  then show ?case by simp
next
  case (Cons x xs)
  show ?case
  proof (cases "x = e")
    case True
    with Cons.prems have "id' e \<notin> id' ` set xs" by auto
    then show ?thesis using True by (simp add: filter_absent_id)
  next
    case False
    with Cons.prems have "e \<in> set xs" and "id' x \<noteq> id' e" by auto
    with Cons show ?thesis using False by simp
  qed
qed

text \<open>
  C5. In a store with unique ids, deleting an id that no record has leaves the store as
  it is, and deleting the id of a record \<open>e\<close> of the store removes \<open>e\<close> and nothing
  else (the other records stay, in their order), so the store is one record shorter.
\<close>

theorem handleDelete_unique_ids:
  assumes "distinct (map id' (expenses st))"
  shows "(i \<notin> id' ` set (expenses st) \<longrightarrow> expenses (handleDelete i st) = expenses st) \<and>
         (\<forall>e \<in> set (expenses st). id' e = i \<longrightarrow>
            expenses (handleDelete i st) = remove1 e (expenses st) \<and>
            length (expenses (handleDelete i st)) + 1 = length (expenses st) \<and>
            set (expenses (handleDelete i st)) = set (expenses st) - {e})"
proof (intro conjI impI ballI)
  assume "i \<notin> id' ` set (expenses st)"
  then show "expenses (handleDelete i st) = expenses st"
    by (simp add: handleDelete_def filter_absent_id)
next
  fix e assume e: "e \<in> set (expenses st)" and i: "id' e = i"
  from assms have d: "distinct (expenses st)" by (rule distinct_map [THEN iffD1, THEN conjunct1])
  show r: "expenses (handleDelete i st) = remove1 e (expenses st)"
    using filter_present_id [OF assms e] i by (simp add: handleDelete_def)
  show "length (expenses (handleDelete i st)) + 1 = length (expenses st)"
    using e length_pos_if_in_set [OF e] by (simp add: r length_remove1)
  show "set (expenses (handleDelete i st)) = set (expenses st) - {e}"
    using d by (simp add: r)
qed

theorem handleDelete_unique_ids_witness:
  "expenses (handleDelete ''t1'' (example_state blank_label_form)) = [rent] \<and>
   expenses (handleDelete ''zz'' (example_state blank_label_form)) = [rent, tea]"
  using handleDelete_unique_ids [of "example_state blank_label_form" "''t1''"]
    handleDelete_unique_ids [of "example_state blank_label_form" "''zz''"]
  by (simp add: example_state_def rent_def tea_def)

subsection \<open>Create\<close>

lemma Number_minus_5: "Number ''-5'' = Fin (- 5)"
  by code_simp

lemma trim_blank: "trim ''  '' = []"
  by code_simp

lemma trim_Refund: "trim ''Refund'' = ''Refund''"
  by code_simp

text \<open>
  C1, as the code has it. A submission whose label is empty after trimming, or whose amount
  reads as \<^verbatim>\<open>NaN\<close> (it is not a number) or as zero, changes nothing: the handler returns
  the state it was given, and it has no way to raise an error. A negative amount is not among
  these: the handler has no check for it (the form's \<^verbatim>\<open>min="0"\<close> keeps it out).
\<close>

theorem handleSubmit_rejects:
  assumes "trim (form_label (form st)) = [] \<or> Number (form_amount (form st)) = NaN \<or>
           Number (form_amount (form st)) = Fin 0"
  shows "handleSubmit env st = st"
  using assms by (auto simp: handleSubmit_def rejected_def truthy_def Number_isNaN_def Let_def)

theorem handleSubmit_rejects_witness:
  "trim (form_label blank_label_form) = [] \<and>
   handleSubmit example_env (example_state blank_label_form) = example_state blank_label_form"
  using handleSubmit_rejects [of "example_state blank_label_form" example_env] trim_blank
  by (simp add: example_state_def blank_label_form_def)

text \<open>
  C1, as the specification states it, fails for a negative amount: the label
  \<^verbatim>\<open>Refund\<close> with the amount \<^verbatim>\<open>-5\<close> adds a record to a store of two.
\<close>

theorem handleSubmit_accepts_negative:
  "Number (form_amount negative_form) = Fin (- 5) \<and>
   length (expenses (example_state negative_form)) = 2 \<and>
   length (expenses (handleSubmit example_env (example_state negative_form))) = 3"
  by (simp add: handleSubmit_def rejected_def truthy_def Number_isNaN_def Number_minus_5
      trim_Refund length_sort_js example_state_def negative_form_def)

lemma round2_digits: "of_int \<lfloor>round2 x * 100\<rfloor> = round2 x * 100"
  by (simp add: round2_def)

lemma round2_near: "\<bar>round2 x - x\<bar> \<le> 1 / 200"
proof (cases "0 \<le> x")
  case True
  define n where "n = \<lfloor>x * 100 + 1 / 2\<rfloor>"
  have "of_int n \<le> x * 100 + 1 / 2" and "x * 100 + 1 / 2 < of_int n + 1"
    unfolding n_def by linarith+
  moreover have "round2 x = of_int n / 100"
    using True by (simp add: round2_def n_def)
  ultimately have "round2 x - x \<le> 1 / 200" and "- (1 / 200) \<le> round2 x - x"
    by linarith+
  then show ?thesis by linarith
next
  case False
  define n where "n = \<lfloor>- x * 100 + 1 / 2\<rfloor>"
  have "of_int n \<le> - x * 100 + 1 / 2" and "- x * 100 + 1 / 2 < of_int n + 1"
    unfolding n_def by linarith+
  moreover have "round2 x = - (of_int n / 100)"
    using False by (simp add: round2_def n_def)
  ultimately have "round2 x - x \<le> 1 / 200" and "- (1 / 200) \<le> round2 x - x"
    by linarith+
  then show ?thesis by linarith
qed

lemma toFixed2_rounded: "rounded_to_2_digits a (toFixed2 a)"
proof (cases a)
  case (Fin x)
  then show ?thesis using round2_near [of x] round2_digits [of x] by simp
qed simp_all

lemma not_rejected_positive:
  assumes "trim (form_label f) \<noteq> []" and "num_gt (Number (form_amount f)) (Fin 0)"
  shows "\<not> rejected f"
proof -
  from assms(2) have "Number (form_amount f) \<noteq> NaN" and "Number (form_amount f) \<noteq> Fin 0"
    by auto
  with assms(1) show ?thesis
    by (simp add: rejected_def truthy_def Number_isNaN_def)
qed

lemma handleSubmit_expenses:
  "\<not> rejected (form st) \<Longrightarrow>
   expenses (handleSubmit env st) = sort_js by_date_desc (newExpense env (form st) # expenses st)"
  by (simp add: handleSubmit_def)

text \<open>
  C3. A submission with a label that is not blank and a positive amount makes the store one
  record longer: the new store holds the old records and the new one, whose amount is the
  submitted amount rounded to two decimal digits.
\<close>

theorem handleSubmit_valid:
  assumes "trim (form_label (form st)) \<noteq> []"
    and "num_gt (Number (form_amount (form st))) (Fin 0)"
  shows "length (expenses (handleSubmit env st)) = length (expenses st) + 1 \<and>
         mset (expenses (handleSubmit env st)) =
           add_mset (newExpense env (form st)) (mset (expenses st)) \<and>
         rounded_to_2_digits (Number (form_amount (form st))) (amount (newExpense env (form st)))"
  using handleSubmit_expenses [OF not_rejected_positive [OF assms], of env]
  by (simp add: length_sort_js mset_sort_js newExpense_def toFixed2_rounded)

lemma trim_Coffee: "trim '' Coffee '' = ''Coffee''"
  by code_simp

lemma Number_12345: "Number ''12.345'' = Fin (2469 / 200)"
  by code_simp

lemma toFixed2_12345: "toFixed2 (Fin (2469 / 200)) = Fin (247 / 20)"
  by code_simp

theorem handleSubmit_valid_witness:
  "trim (form_label coffee_form) = ''Coffee'' \<and>
   Number (form_amount coffee_form) = Fin (2469 / 200) \<and>
   length (expenses (handleSubmit example_env (example_state coffee_form))) = 3 \<and>
   amount (newExpense example_env coffee_form) = Fin (247 / 20)"
  using handleSubmit_valid [of "example_state coffee_form" example_env]
    trim_Coffee Number_12345 toFixed2_12345
  by (simp add: example_state_def coffee_form_def newExpense_def)















subsection \<open>Top categories\<close>

lemma tally_snoc: "tally (xs @ [e]) = tally_add (tally xs) (category e) (amount e)"
  by (simp add: tally_def)

lemma monthTotal_snoc: "monthTotal (xs @ [e]) = num_add (monthTotal xs) (amount e)"
  by (simp add: monthTotal_def)

lemma fst_tally_add:
  "map fst (tally_add acc c a) = (if c \<in> fst ` set acc then map fst acc else map fst acc @ [c])"
  by (induction acc c a rule: tally_add.induct) auto

lemma map_of_tally_add:
  "map_of (tally_add acc c a) =
   (map_of acc)(c \<mapsto> num_add (case map_of acc c of None \<Rightarrow> Fin 0 | Some v \<Rightarrow> v) a)"
  by (induction acc c a rule: tally_add.induct) (auto simp: fun_eq_iff)

lemma distinct_tally: "distinct (map fst (tally xs))"
  by (induction xs rule: rev_induct) (auto simp: tally_snoc fst_tally_add tally_def)

lemma keys_tally: "fst ` set (tally xs) = category ` set xs"
proof (induction xs rule: rev_induct)
  case Nil
  then show ?case by (simp add: tally_def)
next
  case (snoc e xs)
  have "fst ` set (tally (xs @ [e])) = set (map fst (tally_add (tally xs) (category e) (amount e)))"
    by (simp add: tally_snoc)
  also have "\<dots> = insert (category e) (fst ` set (tally xs))"
    by (auto simp: fst_tally_add)
  finally show ?case using snoc by auto
qed

lemma map_of_tally:
  "map_of (tally xs) c = (if c \<in> category ` set xs then Some (category_sum xs c) else None)"
proof (induction xs rule: rev_induct)
  case Nil
  then show ?case by (simp add: tally_def)
next
  case (snoc e xs)
  show ?case
  proof (cases "category e = c")
    case True
    have "filter (\<lambda>x. category x = c) xs = []" if "c \<notin> category ` set xs"
      using that by (auto simp: filter_empty_conv)
    with True snoc show ?thesis
      by (auto simp: tally_snoc map_of_tally_add category_sum_def monthTotal_snoc monthTotal_def)
  next
    case False
    with snoc show ?thesis
      by (auto simp: tally_snoc map_of_tally_add category_sum_def)
  qed
qed

lemma tally_entries:
  "(c, v) \<in> set (tally xs) \<Longrightarrow> c \<in> category ` set xs \<and> v = category_sum xs c"
  using map_of_tally [of xs c] distinct_tally [of xs]
  by (auto split: if_splits dest: map_of_SomeD simp: rev_image_eqI)

lemma num_add_finite: "Number_isFinite a \<Longrightarrow> Number_isFinite b \<Longrightarrow> Number_isFinite (num_add a b)"
  by (cases a; cases b) (simp_all add: Number_isFinite_def)

lemma monthTotal_finite:
  "\<forall>e \<in> set xs. Number_isFinite (amount e) \<Longrightarrow> Number_isFinite (monthTotal xs)"
  by (induction xs rule: rev_induct) (auto simp: monthTotal_snoc num_add_finite, simp add: monthTotal_def Number_isFinite_def)

lemma length_tally: "length (tally xs) = card (category ` set xs)"
  using distinct_tally [of xs] keys_tally [of xs]
  by (metis distinct_card length_map set_map)

text \<open>
  Numbers other than \<^verbatim>\<open>NaN\<close> are totally ordered, and the comparison function
  \<^verbatim>\<open>b - a\<close> is positive exactly when \<open>b\<close> is greater.
\<close>

lemma num_gt_sub:
  "a \<noteq> NaN \<Longrightarrow> b \<noteq> NaN \<Longrightarrow> num_gt (num_sub b a) (Fin 0) = num_gt b a"
  by (cases a; cases b) (auto simp: num_sub_def)

lemma num_ge_if_not_gt: "a \<noteq> NaN \<Longrightarrow> b \<noteq> NaN \<Longrightarrow> \<not> num_gt b a \<Longrightarrow> num_ge a b"
  by (cases a; cases b) auto

lemma num_gt_imp_ge: "num_gt b a \<Longrightarrow> num_ge b a"
  by (cases a; cases b) auto

lemma num_ge_trans: "num_ge a b \<Longrightarrow> num_ge b c \<Longrightarrow> num_ge a c"
  by (cases a; cases b; cases c) auto

lemma insert_js_sorted_by:
  assumes "k x \<noteq> NaN" and "\<forall>y \<in> set ys. k y \<noteq> NaN"
    and "\<forall>y \<in> set ys. c x y = num_sub (k y) (k x)"
    and "sorted_wrt (\<lambda>a b. num_ge (k a) (k b)) ys"
  shows "sorted_wrt (\<lambda>a b. num_ge (k a) (k b)) (insert_js c x ys)"
  using assms(2-)
proof (induction ys)
  case Nil
  then show ?case by simp
next
  case (Cons y ys)
  from Cons.prems assms(1) have gt: "num_gt (c x y) (Fin 0) = num_gt (k y) (k x)"
    by (simp add: num_gt_sub)
  show ?case
  proof (cases "num_gt (k y) (k x)")
    case True
    then have "num_ge (k y) (k x)" by (rule num_gt_imp_ge)
    with True Cons gt show ?thesis by (auto simp: set_insert_js)
  next
    case False
    with Cons.prems assms(1) have xy: "num_ge (k x) (k y)"
      by (simp add: num_ge_if_not_gt)
    moreover have "num_ge (k x) (k z)" if "z \<in> set ys" for z
      using xy Cons.prems(3) that by (auto intro: num_ge_trans)
    ultimately show ?thesis using False gt Cons.prems(3) by auto
  qed
qed

lemma sort_js_sorted_by:
  assumes "\<forall>x \<in> set xs. k x \<noteq> NaN"
    and "\<forall>x \<in> set xs. \<forall>y \<in> set xs. c x y = num_sub (k y) (k x)"
  shows "sorted_wrt (\<lambda>a b. num_ge (k a) (k b)) (sort_js c xs)"
  using assms
proof (induction xs)
  case Nil
  then show ?case by (simp add: sort_js_def)
next
  case (Cons x xs)
  then have "sorted_wrt (\<lambda>a b. num_ge (k a) (k b)) (sort_js c xs)" by simp
  then show ?case
    unfolding sort_js_Cons using Cons.prems
    by (intro insert_js_sorted_by) (simp_all add: set_sort_js)
qed

lemma sort_js_by_sum_no_NaN:
  fixes ps :: "(category \<times> number) list"
  assumes "\<forall>p \<in> set ps. snd p \<noteq> NaN"
  shows "sorted_wrt (\<lambda>a b. num_ge (snd a) (snd b)) (sort_js (\<lambda>(ca, a) (cb, b). num_sub b a) ps)"
  using assms by (intro sort_js_sorted_by) (auto simp: case_prod_beta)

lemma finite_amounts_sum:
  assumes "\<forall>e \<in> set xs. Number_isFinite (amount e)"
  shows "category_sum xs c \<noteq> NaN"
proof -
  have "Number_isFinite (category_sum xs c)"
    unfolding category_sum_def using assms by (intro monthTotal_finite) simp
  then show ?thesis by (auto simp: Number_isFinite_def)
qed

text \<open>
  C4, as the code has it. \<open>topCategories\<close> returns at most three entries (as many as there
  are categories, up to three) and none for no expenses; each entry pairs a category of the
  input with the sum of its amounts, and no category comes twice. When no category sum is
  \<^verbatim>\<open>NaN\<close> (as when every amount is finite), the entries are sorted by sum, largest
  first, and no category left out has a larger sum than one returned.
\<close>

theorem topCategories_top3:
  "length (topCategories xs) \<le> 3 \<and>
   length (topCategories xs) = min 3 (card (category ` set xs)) \<and>
   topCategories [] = [] \<and>
   (\<forall>p \<in> set (topCategories xs).
      fst p \<in> category ` set xs \<and> snd p = category_sum xs (fst p)) \<and>
   distinct (map fst (topCategories xs)) \<and>
   ((\<forall>c. category_sum xs c \<noteq> NaN) \<longrightarrow>
      sorted_wrt (\<lambda>a b. num_ge (snd a) (snd b)) (topCategories xs) \<and>
      (\<forall>i. Suc i < length (topCategories xs) \<longrightarrow>
         num_ge (snd (topCategories xs ! i)) (snd (topCategories xs ! Suc i))) \<and>
      (\<forall>p \<in> set (topCategories xs). \<forall>c \<in> category ` set xs - fst ` set (topCategories xs).
         num_ge (snd p) (category_sum xs c))) \<and>
   ((\<forall>e \<in> set xs. Number_isFinite (amount e)) \<longrightarrow> (\<forall>c. category_sum xs c \<noteq> NaN))"
proof -
  define S where "S = sort_js (\<lambda>(ca :: category, a) (cb :: category, b). num_sub b a) (tally xs)"
  have top: "topCategories xs = take 3 S"
    by (simp add: topCategories_def S_def)
  have mset_S: "mset S = mset (tally xs)" and set_S: "set S = set (tally xs)"
    and len_S: "length S = length (tally xs)"
    by (simp_all add: S_def mset_sort_js set_sort_js length_sort_js)
  have "mset (map fst S) = mset (map fst (tally xs))"
    using mset_S by (metis mset_map)
  then have distinct_S: "distinct (map fst S)"
    using distinct_tally [of xs] by (metis mset_eq_imp_distinct_iff)
  have len: "length (topCategories xs) = min 3 (card (category ` set xs))"
    by (simp add: top len_S length_tally min.commute)
  have entries: "\<forall>p \<in> set (topCategories xs).
            fst p \<in> category ` set xs \<and> snd p = category_sum xs (fst p)"
  proof
    fix p assume "p \<in> set (topCategories xs)"
    then have "(fst p, snd p) \<in> set (tally xs)"
      unfolding top using set_S by (auto dest: in_set_takeD)
    then show "fst p \<in> category ` set xs \<and> snd p = category_sum xs (fst p)"
      by (rule tally_entries)
  qed
  have dist: "distinct (map fst (topCategories xs))"
    unfolding top take_map [symmetric] using distinct_S by (rule distinct_take)
  have empty: "topCategories [] = []"
    by (simp add: topCategories_def tally_def sort_js_def)
  have ordered: "sorted_wrt (\<lambda>a b. num_ge (snd a) (snd b)) (topCategories xs) \<and>
      (\<forall>i. Suc i < length (topCategories xs) \<longrightarrow>
         num_ge (snd (topCategories xs ! i)) (snd (topCategories xs ! Suc i))) \<and>
      (\<forall>p \<in> set (topCategories xs). \<forall>c \<in> category ` set xs - fst ` set (topCategories xs).
         num_ge (snd p) (category_sum xs c))"
    if no_NaN: "\<forall>c. category_sum xs c \<noteq> NaN"
  proof -
    have "\<forall>p \<in> set (tally xs). snd p \<noteq> NaN"
      using no_NaN tally_entries by (metis prod.collapse)
    then have sorted_S: "sorted_wrt (\<lambda>a b. num_ge (snd a) (snd b)) S"
      unfolding S_def by (rule sort_js_by_sum_no_NaN)
    have s: "sorted_wrt (\<lambda>a b. num_ge (snd a) (snd b)) (topCategories xs)"
      unfolding top using sorted_S by (rule sorted_wrt_take)
    moreover from s have "\<forall>i. Suc i < length (topCategories xs) \<longrightarrow>
            num_ge (snd (topCategories xs ! i)) (snd (topCategories xs ! Suc i))"
      by (simp add: sorted_wrt_iff_nth_less)
    moreover have "\<forall>p \<in> set (topCategories xs). \<forall>c \<in> category ` set xs - fst ` set (topCategories xs).
            num_ge (snd p) (category_sum xs c)"
    proof (intro ballI)
      fix p c
      assume p: "p \<in> set (topCategories xs)"
        and c: "c \<in> category ` set xs - fst ` set (topCategories xs)"
      from c have "c \<in> fst ` set (tally xs)" by (simp add: keys_tally)
      then obtain v where v: "(c, v) \<in> set (tally xs)" by auto
      then have "v = category_sum xs c" using tally_entries by blast
      have "(c, v) \<notin> set (take 3 S)" using c top by force
      moreover have "set S = set (take 3 S) \<union> set (drop 3 S)"
        by (metis append_take_drop_id set_append)
      ultimately have "(c, v) \<in> set (drop 3 S)" using v set_S by auto
      moreover have "sorted_wrt (\<lambda>a b. num_ge (snd a) (snd b)) (take 3 S @ drop 3 S)"
        using sorted_S by simp
      ultimately have "num_ge (snd p) (snd (c, v))"
        using p unfolding top sorted_wrt_append by blast
      then show "num_ge (snd p) (category_sum xs c)"
        using \<open>v = category_sum xs c\<close> by simp
    qed
    ultimately show ?thesis by simp
  qed
  have "(\<forall>e \<in> set xs. Number_isFinite (amount e)) \<longrightarrow> (\<forall>c. category_sum xs c \<noteq> NaN)"
    using finite_amounts_sum by blast
  with len entries dist empty ordered show ?thesis by simp
qed

lemma topCategories_january: "topCategories january = [(Food, Fin 30), (Transport, Fin 5)]"
  by code_simp

theorem topCategories_top3_witness:
  "topCategories january = [(Food, Fin 30), (Transport, Fin 5)] \<and>
   length (topCategories january) \<le> 3 \<and>
   sorted_wrt (\<lambda>a b. num_ge (snd a) (snd b)) (topCategories january)"
proof -
  have "\<forall>e \<in> set january. Number_isFinite (amount e)"
    by (simp add: january_def Number_isFinite_def)
  with topCategories_top3 [of january]
  have "length (topCategories january) \<le> 3 \<and>
        sorted_wrt (\<lambda>a b. num_ge (snd a) (snd b)) (topCategories january)"
    by blast
  then show ?thesis using topCategories_january by simp
qed

lemma Number_Infinity: "Number ''Infinity'' = PosInf"
  by code_simp

lemma infinity_form_accepted:
  "\<not> rejected infinity_form" "amount (newExpense example_env infinity_form) = PosInf"
  by code_simp (simp add: newExpense_def infinity_form_def Number_Infinity)

lemma topCategories_unbounded:
  "topCategories unbounded = [(Food, NaN), (Health, Fin 7), (Transport, Fin 5)]"
  by code_simp

text \<open>
  C4, as the specification states it, fails when a category sum is \<^verbatim>\<open>NaN\<close>. The form
  accepts the amounts \<^verbatim>\<open>Infinity\<close> and \<^verbatim>\<open>-Infinity\<close>; their sum is \<^verbatim>\<open>NaN\<close>, every
  comparison with it counts as equal, and the entry stays in front of a sum of 7.
\<close>

theorem topCategories_NaN_unsorted:
  "\<not> rejected infinity_form \<and>
   amount (newExpense example_env infinity_form) = PosInf \<and>
   topCategories unbounded = [(Food, NaN), (Health, Fin 7), (Transport, Fin 5)] \<and>
   \<not> num_ge (snd (topCategories unbounded ! 0)) (snd (topCategories unbounded ! 1))"
  using infinity_form_accepted by (simp add: topCategories_unbounded)

subsection \<open>Load and persist\<close>

lemma now_fields:
  "getFullYear 0 (Some 1710500000000) = Some 2024"
  "getMonth 0 (Some 1710500000000) = Some 2"
  by code_simp+

lemma seed_days:
  "Date_fields 0 (Fin 2024) (Fin 2) (Fin 2) = Some 1709337600000"
  "Date_fields 0 (Fin 2024) (Fin 2) (Fin 3) = Some 1709424000000"
  "Date_fields 0 (Fin 2024) (Fin 2) (Fin 5) = Some 1709596800000"
  "Date_fields 0 (Fin 2024) (Fin 2) (Fin 7) = Some 1709769600000"
  "Date_fields 0 (Fin 2024) (Fin 2) (Fin 10) = Some 1710028800000"
  by code_simp+

lemma seed_dates:
  "toLocalDateInput 0 (Some 1709337600000) = Some ''2024-03-02''"
  "toLocalDateInput 0 (Some 1709424000000) = Some ''2024-03-03''"
  "toLocalDateInput 0 (Some 1709596800000) = Some ''2024-03-05''"
  "toLocalDateInput 0 (Some 1709769600000) = Some ''2024-03-07''"
  "toLocalDateInput 0 (Some 1710028800000) = Some ''2024-03-10''"
  by code_simp+

lemma sample_example:
  "sample example_env =
     [(''Morning coffee'', Food, Fin (9 / 2), Some ''2024-03-02''),
      (''Weekly groceries'', Food, Fin (431 / 5), Some ''2024-03-03''),
      (''Metro pass'', Transport, Fin 28, Some ''2024-03-05''),
      (''Electric bill'', Utilities, Fin (259 / 4), Some ''2024-03-07''),
      (''Yoga class'', Health, Fin 22, Some ''2024-03-10'')]"
  by (simp add: sample_def example_env_def now_fields seed_days seed_dates number_of_def
      del: Date_fields.simps)

lemma upt_5: "[0 ..< 5] = [0, 1, 2, 3, 4]"
  by code_simp

lemma seed_example: "createSeedExpenses example_env = Some march_seed"
  by (simp add: createSeedExpenses_def sample_example upt_5 march_seed_def)
    (simp add: example_env_def)

lemma parse_oops: "parse example_JSON ''{oops'' = None"
  by (simp add: example_JSON_def example_text_def)

lemma fresh_state_storage: "localStorage fresh_state = Map.empty"
  by (simp add: fresh_state_def)

lemma broken_state_storage: "localStorage broken_state storageKey = Some ''{oops''"
  by (simp add: broken_state_def)

lemma broken_state_console: "console broken_state = []"
  by (simp add: broken_state_def)

lemma broken_state_expenses: "expenses broken_state = []"
  by (simp add: broken_state_def)

text \<open>
  C2, as the code has it. When nothing (or the empty text) is stored under the key, the load
  effect makes the seed generator's output the store and writes its JSON text under the key.
  When a text is stored that does not parse, the effect writes the error to the console and
  changes nothing else: the store stays as it was and nothing is written to the mirror.
\<close>

theorem load_fallback:
  "((localStorage st storageKey = None \<or> localStorage st storageKey = Some []) \<and>
      createSeedExpenses env = Some seed \<longrightarrow>
      expenses (load env J st) = seed \<and>
      localStorage (load env J st) = (localStorage st)(storageKey \<mapsto> stringify J seed)) \<and>
   (localStorage st storageKey = Some s \<and> s \<noteq> [] \<and> parse J s = None \<longrightarrow>
      load env J st = st\<lparr>console := console st @ [''Failed to parse expenses from storage'']\<rparr>)"
  by (auto simp: load_def Let_def)

theorem load_fallback_witness:
  "expenses (load example_env example_JSON fresh_state) = march_seed \<and>
   localStorage (load example_env example_JSON fresh_state) storageKey =
     Some (stringify example_JSON march_seed) \<and>
   load example_env example_JSON broken_state =
     broken_state\<lparr>console := [''Failed to parse expenses from storage'']\<rparr>"
proof -
  from load_fallback [of fresh_state example_env march_seed example_JSON]
  have "expenses (load example_env example_JSON fresh_state) = march_seed"
    and "localStorage (load example_env example_JSON fresh_state) =
         (localStorage fresh_state)(storageKey \<mapsto> stringify example_JSON march_seed)"
    using seed_example fresh_state_storage by simp_all
  moreover from load_fallback [of broken_state example_env march_seed example_JSON "''{oops''"]
  have "load example_env example_JSON broken_state =
        broken_state\<lparr>console := [''Failed to parse expenses from storage'']\<rparr>"
    using broken_state_storage parse_oops broken_state_console by simp
  ultimately show ?thesis by simp
qed

text \<open>
  C2, as the specification states it, fails for a stored text that does not parse: the
  seed generator returns five records, but the store stays empty and the mirror keeps the
  broken text.
\<close>

theorem load_unparsable_not_seeded:
  "localStorage broken_state storageKey = Some ''{oops'' \<and>
   parse example_JSON ''{oops'' = None \<and>
   createSeedExpenses example_env = Some march_seed \<and>
   length march_seed = 5 \<and>
   expenses (load example_env example_JSON broken_state) = [] \<and>
   localStorage (load example_env example_JSON broken_state) storageKey = Some ''{oops''"
  using parse_oops seed_example broken_state_storage broken_state_expenses
  by (simp add: load_def Let_def march_seed_def)

lemma category_of_name_name: "category_of_name (category_name c) = Some c"
  by (cases c) (simp_all add: category_name_def category_of_name_def)

lemma json_to_expense_to_json: "json_to_expense (expense_to_json e) = Some (reread e)"
  by (cases "amount e")
    (simp_all add: json_to_expense_def expense_to_json_def json_string_def category_of_name_name
      number_to_json_def json_to_number_def reread_def)

lemma from_json_to_json: "from_json (to_json xs) = Some (map reread xs)"
  by (simp add: from_json_def to_json_def json_to_expense_to_json)

lemma reread_finite: "Number_isFinite (amount e) \<Longrightarrow> reread e = e"
  by (cases "amount e") (simp_all add: reread_def Number_isFinite_def)

text \<open>
  C8, as the code has it. Take a store whose amounts are all finite, and a page whose
  mirror holds what persisting that store wrote (for example a page mounted anew, with an
  empty store). If the platform reads the JSON text of the store's value back as that value,
  Load on that page yields the store, record for record and in the same order.
\<close>

theorem load_after_persist:
  assumes "\<forall>e \<in> set (expenses st). Number_isFinite (amount e)"
    and "json_value T (json_text T (to_json (expenses st))) = Some (to_json (expenses st))"
    and "json_text T (to_json (expenses st)) \<noteq> []"
    and "localStorage page storageKey = localStorage (persist (JSON_of T) st) storageKey"
  shows "expenses (load env (JSON_of T) page) = expenses st \<and>
         set (expenses (load env (JSON_of T) page)) = set (expenses st)"
proof -
  have "map reread (expenses st) = expenses st"
    using assms(1) by (simp add: reread_finite map_idI)
  then have "parse (JSON_of T) (stringify (JSON_of T) (expenses st)) = Some (expenses st)"
    using assms(2) by (simp add: JSON_of_def from_json_to_json)
  moreover have "localStorage page storageKey = Some (stringify (JSON_of T) (expenses st))"
    using assms(4) by (simp add: persist_def)
  moreover have "stringify (JSON_of T) (expenses st) \<noteq> []"
    using assms(3) by (simp add: JSON_of_def)
  ultimately have "expenses (load env (JSON_of T) page) = expenses st"
    by (simp add: load_def Let_def split: list.splits)
  then show ?thesis by simp
qed

lemma example_codec_rent_tea:
  "json_text example_codec (to_json [rent, tea]) = example_text"
  "json_value example_codec example_text = Some (to_json [rent, tea])"
  by (simp_all add: example_codec_def)

lemma example_codec_prize:
  "json_text example_codec (to_json [prize]) = prize_text"
  "json_value example_codec prize_text = Some (to_json [prize])"
  by (simp_all add: example_codec_def to_json_def example_text_def prize_text_def)

lemma remount_simps:
  "expenses (remount st) = []"
  "localStorage (remount st) = localStorage st"
  by (simp_all add: remount_def fresh_state_def)

theorem load_after_persist_witness:
  "expenses (remount (persist (JSON_of example_codec) (example_state blank_label_form))) = [] \<and>
   expenses (load example_env (JSON_of example_codec)
     (remount (persist (JSON_of example_codec) (example_state blank_label_form)))) = [rent, tea]"
proof -
  have "expenses (example_state blank_label_form) = [rent, tea]"
    by (simp add: example_state_def)
  moreover have "Number_isFinite (amount rent)" "Number_isFinite (amount tea)"
    by (simp_all add: rent_def tea_def Number_isFinite_def)
  moreover have "example_text \<noteq> []"
    by (simp add: example_text_def)
  ultimately show ?thesis
    using load_after_persist [of "example_state blank_label_form" example_codec
        "remount (persist (JSON_of example_codec) (example_state blank_label_form))" example_env]
    by (simp add: example_codec_rent_tea remount_simps)
qed

text \<open>
  C8, as the specification states it, fails for a store with an infinite amount:
  \<^verbatim>\<open>JSON.stringify\<close> writes the amount as \<^verbatim>\<open>null\<close>, and the record that Load reads
  back is not the record that was persisted.
\<close>

lemma prize_reread: "reread prize = prize\<lparr>amount := Fin 0\<rparr>"
  by (simp add: reread_def prize_def)

theorem load_after_persist_infinity:
  "number_to_json (amount prize) = JNull \<and>
   localStorage (persist (JSON_of example_codec) prize_state) storageKey = Some prize_text \<and>
   json_value example_codec prize_text = Some (to_json [prize]) \<and>
   expenses (load example_env (JSON_of example_codec)
     (remount (persist (JSON_of example_codec) prize_state))) = [prize\<lparr>amount := Fin 0\<rparr>] \<and>
   set (expenses (load example_env (JSON_of example_codec)
     (remount (persist (JSON_of example_codec) prize_state)))) \<noteq> set (expenses prize_state)"
proof -
  have 1: "number_to_json (amount prize) = JNull"
    by (simp add: number_to_json_def prize_def)
  have 2: "localStorage (persist (JSON_of example_codec) prize_state) storageKey = Some prize_text"
    by (simp add: persist_def JSON_of_def prize_state_def example_codec_prize)
  have "prize_text \<noteq> []"
    by (simp add: prize_text_def)
  then have 3: "expenses (load example_env (JSON_of example_codec)
     (remount (persist (JSON_of example_codec) prize_state))) = [prize\<lparr>amount := Fin 0\<rparr>]"
    using 2 by (simp add: load_def Let_def remount_simps JSON_of_def example_codec_prize
        from_json_to_json prize_reread split: list.splits)
  have "prize\<lparr>amount := Fin 0\<rparr> \<noteq> prize"
    by (simp add: prize_def)
  then show ?thesis
    using 1 2 3 example_codec_prize(2) by (simp add: prize_state_def)
qed

end
